theory Spec2Isabelle
  imports Complex_Main
begin

section \<open>Data model\<close>

text \<open>
  The valve subsystem of the EPANET 3 pressure-management extension
  (\<^verbatim>\<open>Elements/valve.cpp\<close>, \<^verbatim>\<open>Core/project.cpp\<close>). A C++ \<^verbatim>\<open>double\<close> is modelled
  as a \<^typ>\<open>real\<close> (finite values, exact arithmetic; NaN and infinities are outside
  the model), a C++ \<^verbatim>\<open>int\<close> as an \<^typ>\<open>int\<close> (no arithmetic on it can overflow in
  the functions below: it is only compared, converted and tested for divisibility).
  A quotient of doubles by zero is infinite or NaN in the source and \<open>0\<close> in HOL:
  a property that depends on a quotient is stated where its divisor is not zero.
\<close>

text \<open>
  Modelled from the spec: the enumeration \<^verbatim>\<open>Link::LinkStatus\<close> is declared in
  \<^verbatim>\<open>Elements/link.h\<close>, which is not among the sources; the spec gives the status
  of a link as one of OPEN, CLOSED, ACTIVE, TEMP_CLOSED.
\<close>

datatype LinkStatus = LINK_CLOSED | LINK_OPEN | VALVE_ACTIVE | TEMP_CLOSED

datatype ValveType = PRV | PSV | FCV | TCV | PBV | GPV | CCV | DPRV

datatype PresManagType = FO | TM | FM | RNM

text \<open>
  The constants of \<^verbatim>\<open>Core/constants.h\<close> (not among the sources) that the valve
  code uses. They are parameters of every function that reads them.
\<close>

record Constants =
  ZERO_FLOW :: real
  MIN_GRADIENT :: real
  HIGH_RESISTANCE :: real
  PI :: real

text \<open>
  The members of a \<^verbatim>\<open>Node\<close> that the valve code reads through the pointers
  \<^verbatim>\<open>toNode\<close>, \<^verbatim>\<open>fromNode\<close> and \<^verbatim>\<open>remoteNode\<close>. No function modelled here writes
  to a node, so a valve carries the value of each node it points to. The member
  \<^verbatim>\<open>Node::elev\<close> is named \<open>node_elev\<close>, since \<^verbatim>\<open>Valve::elev\<close> is a member of its own.
\<close>

record Node =
  head :: real
  pastHead :: real
  node_elev :: real

text \<open>
  A \<^verbatim>\<open>Valve\<close>: the members it inherits from \<^verbatim>\<open>Link\<close> that the valve code uses,
  followed by the members declared in \<^verbatim>\<open>valve.h\<close>. The pointer \<^verbatim>\<open>remoteNode\<close> is
  \<^verbatim>\<open>nullptr\<close> after construction, hence an option; \<^verbatim>\<open>settingPattern\<close> is
  represented by the value of \<^verbatim>\<open>currentFactor()\<close> of the pattern it points to, or
  \<open>None\<close> for a null pointer.
\<close>

record Valve =
  status :: LinkStatus
  flow :: real
  setting :: real
  diameter :: real
  lossCoeff :: real
  initStatus :: LinkStatus
  initSetting :: real
  pastFlow :: real
  pastHloss :: real
  pastSetting :: real
  hLoss :: real
  hGrad :: real
  inertialTerm :: real
  fromNode :: Node
  toNode :: Node
  valveType :: ValveType
  lossFactor :: real
  settingPattern :: "real option"
  presManagType :: PresManagType
  fixedOutletPressure :: real
  dayPressure :: real
  nightPressure :: real
  a_FM :: real
  b_FM :: real
  c_FM :: real
  rnmPressure :: real
  remoteNode :: "Node option"
  dprvOutletPressure :: real
  Xm :: real
  delta_Xm :: real
  Xm_Last :: real
  errorValve :: real
  errorSumValve :: real
  errorDifValve :: real
  errorPreValve :: real
  hasFixedStatus :: bool
  elev :: real

section \<open>Valve status updates\<close>

text \<open>\<^verbatim>\<open>Valve::updatePrvStatus\<close>.\<close>

definition updatePrvStatus :: "Constants \<Rightarrow> Valve \<Rightarrow> real \<Rightarrow> real \<Rightarrow> real \<Rightarrow> LinkStatus" where
  "updatePrvStatus c v q h1 h2 =
    (let s = status v;
         hset = setting v + elev v
     in case status v of
          VALVE_ACTIVE \<Rightarrow>
            if q < - ZERO_FLOW c then LINK_CLOSED
            else if h1 < hset then LINK_OPEN
            else s
        | LINK_OPEN \<Rightarrow>
            if q < - ZERO_FLOW c then LINK_CLOSED
            else if h2 > hset then VALVE_ACTIVE
            else s
        | LINK_CLOSED \<Rightarrow>
            if h1 > hset \<and> h2 < hset then VALVE_ACTIVE
            else if h1 < hset \<and> h1 > h2 then LINK_OPEN
            else s
        | TEMP_CLOSED \<Rightarrow> s)"

text \<open>
  \<^verbatim>\<open>Valve::updateDprvStatus\<close>. The function stores the outlet pressure it uses in
  the member \<^verbatim>\<open>dprvOutletPressure\<close>, so the model returns the valve as well.
\<close>

definition updateDprvStatus ::
  "Constants \<Rightarrow> Valve \<Rightarrow> real \<Rightarrow> real \<Rightarrow> real \<Rightarrow> LinkStatus \<times> Valve" where
  "updateDprvStatus c v q h1 h2 =
    (let s = status v;
         v1 = (if presManagType v = FO
               then v\<lparr>dprvOutletPressure := fixedOutletPressure v / 0.3048\<rparr>
               else v\<lparr>dprvOutletPressure := head (toNode v) - node_elev (toNode v)\<rparr>);
         hset = dprvOutletPressure v1 + elev v1
     in (case status v1 of
           VALVE_ACTIVE \<Rightarrow>
             if q < - ZERO_FLOW c then LINK_CLOSED
             else if h1 < hset then LINK_OPEN
             else s
         | LINK_OPEN \<Rightarrow>
             if q < - ZERO_FLOW c then LINK_CLOSED
             else if h2 > hset then VALVE_ACTIVE
             else s
         | LINK_CLOSED \<Rightarrow>
             if h1 > hset \<and> h2 < hset then VALVE_ACTIVE
             else if h1 < hset \<and> h1 > h2 then LINK_OPEN
             else s
         | TEMP_CLOSED \<Rightarrow> s, v1))"

text \<open>\<^verbatim>\<open>Valve::updatePsvStatus\<close>.\<close>

definition updatePsvStatus :: "Constants \<Rightarrow> Valve \<Rightarrow> real \<Rightarrow> real \<Rightarrow> real \<Rightarrow> LinkStatus" where
  "updatePsvStatus c v q h1 h2 =
    (let s = status v;
         hset = setting v + elev v
     in case status v of
          VALVE_ACTIVE \<Rightarrow>
            if q < - ZERO_FLOW c then LINK_CLOSED
            else if h2 > hset then LINK_OPEN
            else s
        | LINK_OPEN \<Rightarrow>
            if q < - ZERO_FLOW c then LINK_CLOSED
            else if h1 < hset then VALVE_ACTIVE
            else s
        | LINK_CLOSED \<Rightarrow>
            if h2 < hset \<and> h1 > hset then VALVE_ACTIVE
            else if h2 > hset \<and> h1 > h2 then LINK_OPEN
            else s
        | TEMP_CLOSED \<Rightarrow> s)"

text \<open>\<^verbatim>\<open>Valve::updateStatus\<close>.\<close>

definition updateStatus :: "Constants \<Rightarrow> Valve \<Rightarrow> real \<Rightarrow> real \<Rightarrow> real \<Rightarrow> Valve" where
  "updateStatus c v q h1 h2 =
    (if hasFixedStatus v then v
     else
       let (newStatus, v1) =
             (case valveType v of
                PRV \<Rightarrow> (updatePrvStatus c v q h1 h2, v)
              | DPRV \<Rightarrow> updateDprvStatus c v q h1 h2
              | PSV \<Rightarrow> (updatePsvStatus c v q h1 h2, v)
              | _ \<Rightarrow> (status v, v))
       in if newStatus \<noteq> status v1
          then (let v2 = (if newStatus = LINK_CLOSED then v1\<lparr>flow := ZERO_FLOW c\<rparr> else v1)
                in v2\<lparr>status := newStatus\<rparr>)
          else v1)"

section \<open>Changing a valve's setting and status\<close>

text \<open>
  \<^verbatim>\<open>Valve::changeSetting\<close>. The stream \<^verbatim>\<open>msgLog\<close> is the text written so far; the
  result is the returned flag, the valve and the stream.
\<close>

definition changeSetting ::
  "Constants \<Rightarrow> Valve \<Rightarrow> real \<Rightarrow> bool \<Rightarrow> string \<Rightarrow> string \<Rightarrow> bool \<times> Valve \<times> string" where
  "changeSetting c v newSetting makeChange reason msgLog =
    (if valveType v = CCV then
       (if setting v \<noteq> newSetting then
          (if status v = LINK_CLOSED \<and> newSetting = 0
           then (False, v\<lparr>setting := newSetting\<rparr>, msgLog)
           else if makeChange then
             (let v1 = (if newSetting = 0
                        then v\<lparr>status := LINK_CLOSED, flow := ZERO_FLOW c\<rparr>
                        else v\<lparr>status := LINK_OPEN\<rparr>)
              in (True, v1\<lparr>setting := newSetting\<rparr>, msgLog @ [CHR 0x0A] @ ''    '' @ reason))
           else (True, v, msgLog))
        else (False, v, msgLog))
     else
       (if setting v \<noteq> newSetting then
          (if status v = LINK_CLOSED
           then (False, v\<lparr>setting := newSetting\<rparr>, msgLog)
           else if makeChange then
             (let v1 = (if newSetting = 0
                        then v\<lparr>status := LINK_CLOSED, flow := ZERO_FLOW c\<rparr>
                        else v\<lparr>status := LINK_OPEN\<rparr>)
              in (True, v1\<lparr>setting := newSetting\<rparr>, msgLog @ [CHR 0x0A] @ ''    '' @ reason))
           else (True, v, msgLog))
        else (False, v, msgLog)))"

text \<open>\<^verbatim>\<open>Valve::changeStatus\<close>.\<close>

definition changeStatus ::
  "Constants \<Rightarrow> Valve \<Rightarrow> LinkStatus \<Rightarrow> bool \<Rightarrow> string \<Rightarrow> string \<Rightarrow> bool \<times> Valve \<times> string" where
  "changeStatus c v newStatus makeChange reason msgLog =
    (if \<not> hasFixedStatus v \<or> status v \<noteq> newStatus then
       (if makeChange then
          (let v1 = v\<lparr>status := newStatus, hasFixedStatus := True\<rparr>;
               v2 = (if status v1 = LINK_CLOSED then v1\<lparr>flow := ZERO_FLOW c\<rparr> else v1)
           in (True, v2, msgLog @ [CHR 0x0A] @ ''    '' @ reason))
        else (True, v, msgLog))
     else (False, v, msgLog))"

section \<open>The network\<close>

text \<open>
  What the valve code and the controller read from the \<^verbatim>\<open>Network\<close>:
  \<^verbatim>\<open>ucf(Units::...)\<close>, the options \<^verbatim>\<open>HYD_STEP\<close>, \<^verbatim>\<open>REPORT_STEP\<close> and
  \<^verbatim>\<open>VALVE_REP_TYPE\<close>, the curves (a curve is represented by its method
  \<^verbatim>\<open>findSegment\<close>, which maps \<open>x\<close> to the slope and intercept of its segment;
  \<^verbatim>\<open>curve.cpp\<close> is not among the sources), the links and the message log.
  Pipes and pumps carry no data here: the controller skips them.
\<close>

datatype Units = DIAMETER | PRESSURE | FLOW | LENGTH

datatype Link = PIPE | PUMP | VALVE Valve

record Network =
  links :: "Link list"
  ucf :: "Units \<Rightarrow> real"
  HYD_STEP :: int
  REPORT_STEP :: int
  VALVE_REP_TYPE :: string
  curve :: "int \<Rightarrow> (real \<Rightarrow> real \<times> real) option"
  msgLog :: string

text \<open>
  Ways in which the C++ code leaves defined behaviour: a null pointer is
  dereferenced, a local variable is read before any assignment, an \<^verbatim>\<open>int\<close> is
  divided by zero.
\<close>

datatype fault = NullPointer | UninitializedRead | DivisionByZero

section \<open>Unit conversion and initialisation of a valve\<close>

definition MIN_LOSS_COEFF :: real where
  "MIN_LOSS_COEFF = 0.1"

text \<open>\<^verbatim>\<open>Valve::convertSetting\<close>: the converted setting and the valve, whose \<open>elev\<close> is set.\<close>

definition convertSetting :: "Network \<Rightarrow> Valve \<Rightarrow> real \<Rightarrow> real \<times> Valve" where
  "convertSetting nw v s =
    (let s1 = (case valveType v of
                 PRV \<Rightarrow> s / ucf nw PRESSURE
               | PSV \<Rightarrow> s / ucf nw PRESSURE
               | PBV \<Rightarrow> s / ucf nw PRESSURE
               | FCV \<Rightarrow> s / ucf nw FLOW
               | _ \<Rightarrow> s);
         v1 = (if valveType v = PRV then v\<lparr>elev := node_elev (toNode v)\<rparr> else v);
         v2 = (if valveType v1 = DPRV then v1\<lparr>elev := node_elev (toNode v1)\<rparr> else v1);
         v3 = (if valveType v2 = PSV then v2\<lparr>elev := node_elev (fromNode v2)\<rparr> else v2)
     in (s1, v3))"

text \<open>\<^verbatim>\<open>Valve::convertUnits\<close>.\<close>

definition convertUnits :: "Network \<Rightarrow> Valve \<Rightarrow> Valve" where
  "convertUnits nw v =
    (let v1 = v\<lparr>diameter := diameter v / ucf nw DIAMETER\<rparr>;
         c0 = lossCoeff v1;
         c1 = (if c0 < MIN_LOSS_COEFF then MIN_LOSS_COEFF else c0);
         v2 = v1\<lparr>lossFactor := 0.02517 * c1 / (diameter v1) ^ 4\<rparr>;
         (s, v3) = convertSetting nw v2 (initSetting v2)
     in v3\<lparr>initSetting := s\<rparr>)"

text \<open>\<^verbatim>\<open>Valve::setInitStatus\<close>, \<^verbatim>\<open>Valve::setInitSetting\<close>, \<^verbatim>\<open>Valve::setLossFactor\<close>.\<close>

definition setInitStatus :: "Valve \<Rightarrow> LinkStatus \<Rightarrow> Valve" where
  "setInitStatus v s = v\<lparr>initStatus := s, hasFixedStatus := True\<rparr>"

definition setInitSetting :: "Valve \<Rightarrow> real \<Rightarrow> Valve" where
  "setInitSetting v s = v\<lparr>initSetting := s, initStatus := VALVE_ACTIVE, hasFixedStatus := False\<rparr>"

definition setLossFactor :: "Valve \<Rightarrow> Valve" where
  "setLossFactor v = v\<lparr>lossFactor := 0.02517 * lossCoeff v / (diameter v) ^ 4\<rparr>"

text \<open>\<^verbatim>\<open>Valve::setInitFlow\<close>.\<close>

definition setInitFlow :: "Constants \<Rightarrow> Valve \<Rightarrow> Valve" where
  "setInitFlow c v =
    (let v1 = v\<lparr>flow := PI c * diameter v * diameter v / 4\<rparr>;
         v2 = (if valveType v1 = FCV then v1\<lparr>flow := setting v1\<rparr>
               else if valveType v1 = CCV then
                 (if setting v1 = 0 then v1\<lparr>flow := ZERO_FLOW c\<rparr>
                  else v1\<lparr>flow := PI c * diameter v1 * diameter v1 / 4\<rparr>)
               else if valveType v1 = DPRV then
                 (if setting v1 = 0 then v1\<lparr>flow := ZERO_FLOW c\<rparr>
                  else v1\<lparr>flow := PI c * diameter v1 * diameter v1 / 4\<rparr>)
               else v1)
     in v2\<lparr>pastFlow := 0, pastHloss := 0, pastSetting := 0\<rparr>)"

text \<open>\<^verbatim>\<open>Valve::initialize\<close>.\<close>

definition initialize :: "Constants \<Rightarrow> Valve \<Rightarrow> bool \<Rightarrow> Valve" where
  "initialize c v reInitFlow =
    (let v1 = v\<lparr>status := initStatus v, setting := initSetting v\<rparr>;
         v2 = (if reInitFlow then setInitFlow c v1 else v1)
     in v2\<lparr>hasFixedStatus := (initStatus v2 \<noteq> VALVE_ACTIVE)\<rparr>)"

text \<open>\<^verbatim>\<open>Valve::applyControlPattern\<close>.\<close>

definition applyControlPattern :: "Valve \<Rightarrow> Valve" where
  "applyControlPattern v =
    (let fs = (case settingPattern v of None \<Rightarrow> 1 | Some f \<Rightarrow> f)
     in v\<lparr>setting := setting v * fs\<rparr>)"

section \<open>Head loss of a valve\<close>

text \<open>
  Modelled from the spec: \<^verbatim>\<open>HeadLossModel::findClosedHeadLoss\<close> is defined in
  \<^verbatim>\<open>Models/headlossmodel.cpp\<close>, which is not among the sources. The spec gives the
  closed formula as \<open>hLoss = q * R_closed\<close>, \<open>hGrad = R_closed\<close>, with \<open>R_closed\<close>
  large; \<open>R_closed\<close> is the constant \<^verbatim>\<open>HIGH_RESISTANCE\<close>.
\<close>

definition findClosedHeadLoss :: "Constants \<Rightarrow> Valve \<Rightarrow> real \<Rightarrow> Valve" where
  "findClosedHeadLoss c v q = v\<lparr>hGrad := HIGH_RESISTANCE c, hLoss := HIGH_RESISTANCE c * q\<rparr>"

text \<open>\<^verbatim>\<open>Valve::findOpenHeadLoss\<close>.\<close>

definition findOpenHeadLoss :: "Constants \<Rightarrow> Valve \<Rightarrow> real \<Rightarrow> Valve" where
  "findOpenHeadLoss c v q =
    (let v1 = v\<lparr>hGrad := 2 * lossFactor v * \<bar>q\<bar>\<rparr>
     in if hGrad v1 < MIN_GRADIENT c
        then (let v2 = v1\<lparr>hGrad := MIN_GRADIENT c\<rparr> in v2\<lparr>hLoss := hGrad v2 * q\<rparr>)
        else v1\<lparr>hLoss := hGrad v1 * q / 2\<rparr>)"

text \<open>\<^verbatim>\<open>Valve::findPbvHeadLoss\<close>.\<close>

definition findPbvHeadLoss :: "Constants \<Rightarrow> Valve \<Rightarrow> real \<Rightarrow> Valve" where
  "findPbvHeadLoss c v q =
    (let mloss = lossFactor v * q * q
     in if mloss \<ge> \<bar>setting v\<bar> then findOpenHeadLoss c v q
        else v\<lparr>hGrad := MIN_GRADIENT c, hLoss := setting v\<rparr>)"

text \<open>\<^verbatim>\<open>Valve::findTcvHeadLoss\<close>.\<close>

definition findTcvHeadLoss :: "Constants \<Rightarrow> Valve \<Rightarrow> real \<Rightarrow> Valve" where
  "findTcvHeadLoss c v q =
    (let f = lossFactor v;
         d2 = diameter v * diameter v;
         v1 = v\<lparr>lossFactor := 0.025173 * setting v / d2 / d2\<rparr>;
         v2 = v1\<lparr>lossFactor := max (lossFactor v1) f\<rparr>;
         v3 = findOpenHeadLoss c v2 q
     in v3\<lparr>lossFactor := f\<rparr>)"

text \<open>
  \<^verbatim>\<open>Valve::findCcvHeadLoss\<close>. The loss factor it computes is not restored (the
  restoring assignment is commented out in the source).
\<close>

definition findCcvHeadLoss :: "Constants \<Rightarrow> Network \<Rightarrow> Valve \<Rightarrow> real \<Rightarrow> Valve" where
  "findCcvHeadLoss c nw v q =
    (let v1 =
           (if VALVE_REP_TYPE nw = ''Toe'' then
              (let valve_conductance = 16.96 :: real;
                   vc_square = valve_conductance * valve_conductance;
                   Toe = setting v;
                   Toe_Square = Toe * Toe
               in v\<lparr>lossFactor := 1 / (vc_square * Toe_Square)\<rparr>)
            else if VALVE_REP_TYPE nw = ''Cd'' then
              (let d2 = diameter v * diameter v;
                   FullArea = (d2 * PI c) / 4;
                   FullArea2 = FullArea * FullArea;
                   Cd = - 1.1293 * (setting v) ^ 6 + 3.3823 * (setting v) ^ 5
                        - 3.443 * (setting v) ^ 4 + 0.5671 * (setting v) ^ 3
                        + 1.0371 * (setting v) ^ 2 - 0.0037 * setting v;
                   Cd2 = Cd * Cd;
                   g = 32.174 :: real
               in v\<lparr>lossFactor := (1 / Cd2 - 1) * (1 / (2 * g * FullArea2))\<rparr>)
            else v)
     in findOpenHeadLoss c v1 q)"

text \<open>
  The flow coefficient of \<^verbatim>\<open>Valve::findDprvHeadLoss\<close>: the local variable \<^verbatim>\<open>Cv\<close>
  is declared without a value and assigned only when \<open>0 \<le> Xm \<le> 1\<close>.
\<close>

definition dprvCv :: "Valve \<Rightarrow> real option" where
  "dprvCv v =
    (let Xm2 = Xm v * Xm v;
         Xm3 = Xm2 * Xm v;
         k1 = 0.09 :: real;
         k2 = - 1.21 :: real;
         k3 = 2.33 :: real;
         k4 = - 0.21 :: real;
         Cvmax = 1.442760731 :: real;
         Cvtr = 0.07550186203 :: real
     in if 0 \<le> Xm v \<and> Xm v < 0.12 then Some (Cvtr * Xm v / 0.12)
        else if 0.12 \<le> Xm v \<and> Xm v \<le> 1.0 then Some ((k1 * Xm3 + k2 * Xm2 + k3 * Xm v + k4) * Cvmax)
        else None)"

text \<open>\<^verbatim>\<open>Valve::findDprvHeadLoss\<close>.\<close>

definition findDprvHeadLoss :: "Constants \<Rightarrow> Network \<Rightarrow> Valve \<Rightarrow> real \<Rightarrow> fault + Valve" where
  "findDprvHeadLoss c nw v q =
    (let f = lossFactor v
     in case dprvCv v of
          None \<Rightarrow> Inl UninitializedRead
        | Some Cv \<Rightarrow>
            (let Cv_square = Cv * Cv;
                 v1 = v\<lparr>lossFactor := 1 / Cv_square\<rparr>;
                 v2 = findOpenHeadLoss c v1 q
             in Inr (v2\<lparr>lossFactor := f\<rparr>)))"

text \<open>The conversion \<^verbatim>\<open>(int)setting\<close> of a double: truncation towards zero.\<close>

definition int_of_double :: "real \<Rightarrow> int" where
  "int_of_double x = (if 0 \<le> x then \<lfloor>x\<rfloor> else \<lceil>x\<rceil>)"

text \<open>\<^verbatim>\<open>Valve::findGpvHeadLoss\<close>.\<close>

definition findGpvHeadLoss :: "Network \<Rightarrow> Valve \<Rightarrow> real \<Rightarrow> fault + Valve" where
  "findGpvHeadLoss nw v q =
    (let curveIndex = int_of_double (setting v)
     in case curve nw curveIndex of
          None \<Rightarrow> Inl NullPointer
        | Some findSegment \<Rightarrow>
            (let ucfFlow = ucf nw FLOW;
                 ucfHead = ucf nw LENGTH;
                 qRaw = \<bar>q\<bar> * ucfFlow;
                 (r0, h00) = findSegment qRaw;
                 r = r0 * (ucfFlow / ucfHead);
                 h0 = h00 / ucfHead;
                 v1 = v\<lparr>hGrad := r\<rparr>;
                 v2 = v1\<lparr>hLoss := h0 + r * \<bar>q\<bar>\<rparr>
             in Inr (if q < 0 then v2\<lparr>hLoss := - hLoss v2\<rparr> else v2)))"

text \<open>\<^verbatim>\<open>Valve::findFcvHeadLoss\<close>.\<close>

definition findFcvHeadLoss :: "Constants \<Rightarrow> Valve \<Rightarrow> real \<Rightarrow> Valve" where
  "findFcvHeadLoss c v q =
    (let xflow = q - setting v
     in if xflow > 0
        then v\<lparr>hLoss := lossFactor v * setting v * setting v + HIGH_RESISTANCE c * xflow,
                hGrad := HIGH_RESISTANCE c\<rparr>
        else if q < 0 then findClosedHeadLoss c v q
        else findOpenHeadLoss c v q)"

text \<open>\<^verbatim>\<open>Valve::findHeadLoss\<close>.\<close>

definition findHeadLoss :: "Constants \<Rightarrow> Network \<Rightarrow> Valve \<Rightarrow> real \<Rightarrow> fault + Valve" where
  "findHeadLoss c nw v0 q =
    (let v = v0\<lparr>hLoss := 0, hGrad := 0\<rparr>
     in if status v = TEMP_CLOSED
        then Inr ((findClosedHeadLoss c v q)\<lparr>inertialTerm := MIN_GRADIENT c\<rparr>)
        else if hasFixedStatus v then
          (if status v = LINK_CLOSED
           then Inr ((findClosedHeadLoss c v q)\<lparr>inertialTerm := MIN_GRADIENT c\<rparr>)
           else if status v = LINK_OPEN
           then Inr ((findOpenHeadLoss c v q)\<lparr>inertialTerm := MIN_GRADIENT c\<rparr>)
           else Inr v)
        else
          (case valveType v of
             PBV \<Rightarrow> Inr ((findPbvHeadLoss c v q)\<lparr>inertialTerm := MIN_GRADIENT c\<rparr>)
           | TCV \<Rightarrow> Inr ((findTcvHeadLoss c v q)\<lparr>inertialTerm := MIN_GRADIENT c\<rparr>)
           | CCV \<Rightarrow>
               if setting v = 0
               then Inr ((findClosedHeadLoss c (v\<lparr>status := LINK_CLOSED\<rparr>) q)
                           \<lparr>inertialTerm := MIN_GRADIENT c\<rparr>)
               else Inr ((findCcvHeadLoss c nw (v\<lparr>status := LINK_OPEN\<rparr>) q)
                           \<lparr>inertialTerm := 10.765 / (32.174 * PI c * diameter v * diameter v)\<rparr>)
           | DPRV \<Rightarrow>
               if status v = LINK_CLOSED \<or> Xm v = 0
               then Inr ((findClosedHeadLoss c v q)\<lparr>inertialTerm := MIN_GRADIENT c\<rparr>)
               else if status v = LINK_OPEN
               then Inr ((findOpenHeadLoss c v q)\<lparr>inertialTerm := 0\<rparr>)
               else (case findDprvHeadLoss c nw v q of
                       Inl e \<Rightarrow> Inl e
                     | Inr v1 \<Rightarrow> Inr (v1\<lparr>inertialTerm := 0\<rparr>))
           | GPV \<Rightarrow>
               (case findGpvHeadLoss nw v q of
                  Inl e \<Rightarrow> Inl e
                | Inr v1 \<Rightarrow> Inr (v1\<lparr>inertialTerm := MIN_GRADIENT c\<rparr>))
           | FCV \<Rightarrow> Inr ((findFcvHeadLoss c v q)\<lparr>inertialTerm := MIN_GRADIENT c\<rparr>)
           | PRV \<Rightarrow>
               (let v1 = (if status v = LINK_CLOSED
                          then (findClosedHeadLoss c v q)\<lparr>inertialTerm := MIN_GRADIENT c\<rparr>
                          else if status v = LINK_OPEN then findOpenHeadLoss c v q
                          else v)
                in Inr (v1\<lparr>inertialTerm := MIN_GRADIENT c\<rparr>))
           | PSV \<Rightarrow>
               (let v1 = (if status v = LINK_CLOSED
                          then (findClosedHeadLoss c v q)\<lparr>inertialTerm := MIN_GRADIENT c\<rparr>
                          else if status v = LINK_OPEN then findOpenHeadLoss c v q
                          else v)
                in Inr (v1\<lparr>inertialTerm := MIN_GRADIENT c\<rparr>))))"

section \<open>The pressure-management controller\<close>

text \<open>
  \<^verbatim>\<open>Project::pressureManagement\<close>, lines 516 to 547: the schedule of the
  time-modulated mode. The local variable \<^verbatim>\<open>ref\<close> is declared before the loop over
  the links without a value: \<open>None\<close> is "no value assigned yet". When no condition
  of the chain holds, \<^verbatim>\<open>ref\<close> keeps what it had.
\<close>

definition tmRef :: "Network \<Rightarrow> Valve \<Rightarrow> int \<Rightarrow> real option \<Rightarrow> real option" where
  "tmRef nw v t ref =
    (if 0 \<le> t \<and> t \<le> 3600 then Some (dayPressure v / ucf nw PRESSURE)
     else if 3600 \<le> t \<and> t \<le> 18000 then Some (nightPressure v / ucf nw PRESSURE)
     else if 18000 \<le> t \<and> t \<le> 90000 then Some (dayPressure v / ucf nw PRESSURE)
     else if 90000 \<le> t \<and> t \<le> 104400 then Some (nightPressure v / ucf nw PRESSURE)
     else if 104400 \<le> t \<and> t \<le> 176400 then Some (dayPressure v / ucf nw PRESSURE)
     else if 176400 \<le> t \<and> t \<le> 190800 then Some (nightPressure v / ucf nw PRESSURE)
     else if 190800 \<le> t \<and> t \<le> 262800 then Some (dayPressure v / ucf nw PRESSURE)
     else if 262800 \<le> t \<and> t \<le> 277200 then Some (nightPressure v / ucf nw PRESSURE)
     else if 277200 \<le> t \<and> t \<le> 349200 then Some (dayPressure v / ucf nw PRESSURE)
     else if 349200 \<le> t \<and> t \<le> 363600 then Some (nightPressure v / ucf nw PRESSURE)
     else if 363600 \<le> t \<and> t \<le> 435600 then Some (dayPressure v / ucf nw PRESSURE)
     else if 435600 \<le> t \<and> t \<le> 450000 then Some (nightPressure v / ucf nw PRESSURE)
     else if 450000 \<le> t \<and> t \<le> 522000 then Some (dayPressure v / ucf nw PRESSURE)
     else if 522000 \<le> t \<and> t \<le> 536400 then Some (nightPressure v / ucf nw PRESSURE)
     else if 536400 \<le> t \<and> t \<le> 604800 then Some (dayPressure v / ucf nw PRESSURE)
     else ref)"

text \<open>
  The intervals of the schedule as the conditions of the chain give them, in the
  order of the chain: the lower bound, the upper bound, and whether the day
  pressure (\<open>True\<close>) or the night pressure (\<open>False\<close>) is chosen; and the setpoint
  that belongs to such a choice.
\<close>

definition tmSchedule :: "(int \<times> int \<times> bool) list" where
  "tmSchedule =
    [(0, 3600, True), (3600, 18000, False), (18000, 90000, True), (90000, 104400, False),
     (104400, 176400, True), (176400, 190800, False), (190800, 262800, True),
     (262800, 277200, False), (277200, 349200, True), (349200, 363600, False),
     (363600, 435600, True), (435600, 450000, False), (450000, 522000, True),
     (522000, 536400, False), (536400, 604800, True)]"

definition tmPressure :: "Network \<Rightarrow> Valve \<Rightarrow> bool \<Rightarrow> real" where
  "tmPressure nw v day = (if day then dayPressure v else nightPressure v) / ucf nw PRESSURE"

text \<open>
  Lines 507 to 568: the setpoint \<^verbatim>\<open>ref\<close> and the error \<^verbatim>\<open>errorValve\<close> of an active
  valve, by modulation mode. The result is the valve and the value of \<^verbatim>\<open>ref\<close>.
\<close>

definition setpointError ::
  "Network \<Rightarrow> int \<Rightarrow> real option \<Rightarrow> Valve \<Rightarrow> fault + (Valve \<times> real option)" where
  "setpointError nw t ref0 v =
    (let pToNode = head (toNode v) - node_elev (toNode v)
     in case presManagType v of
          FO \<Rightarrow>
            (let ref = fixedOutletPressure v / ucf nw PRESSURE
             in Inr (v\<lparr>errorValve := ref - pToNode\<rparr>, Some ref))
        | TM \<Rightarrow>
            (case tmRef nw v t ref0 of
               None \<Rightarrow> Inl UninitializedRead
             | Some ref \<Rightarrow> Inr (v\<lparr>errorValve := ref - pToNode\<rparr>, Some ref))
        | FM \<Rightarrow>
            (let ref = (a_FM v * (flow v * ucf nw FLOW) * (flow v * ucf nw FLOW)
                        + b_FM v * (flow v * ucf nw FLOW) + c_FM v) / ucf nw LENGTH
             in Inr (v\<lparr>errorValve := ref - pToNode\<rparr>, Some ref))
        | RNM \<Rightarrow>
            (case remoteNode v of
               None \<Rightarrow> Inl NullPointer
             | Some n \<Rightarrow>
                 (let pRemoteNode = head n - node_elev n;
                      ref = rnmPressure v / ucf nw PRESSURE
                  in Inr (v\<lparr>errorValve := ref - pRemoteNode\<rparr>, Some ref))))"

text \<open>
  Lines 572 to 610: the physical control law (the PID law is commented out in the
  source). \<^verbatim>\<open>deltat\<close> is an \<^verbatim>\<open>int\<close>, converted to a double by the product.
\<close>

definition physicalControl :: "int \<Rightarrow> real \<Rightarrow> real \<Rightarrow> Valve \<Rightarrow> Valve" where
  "physicalControl deltat alfaopen alfaclose v =
    (let Vcontrol = 0.0047 :: real;
         lift = 0.057 :: real;
         k5 = 1.30 :: real;
         k6 = 0.56 :: real;
         Acs = (k5 * Xm v * Xm v + k6) * Vcontrol / lift;
         q3 = (if errorValve v \<ge> 0 then alfaopen * errorValve v
               else if errorValve v \<le> 0 then alfaclose * errorValve v
               else 0);
         v1 = v\<lparr>delta_Xm := (q3 / Acs) * real_of_int deltat\<rparr>
     in v1\<lparr>Xm := delta_Xm v1 + Xm_Last v1\<rparr>)"

text \<open>Lines 476 to 485: the initialisation of a DPRV at \<open>t = 0\<close>.\<close>

definition initDprv :: "int \<Rightarrow> Valve \<Rightarrow> Valve" where
  "initDprv t v =
    (if t = 0
     then v\<lparr>Xm := 0.2, Xm_Last := 0.2, delta_Xm := 0, errorValve := 0,
             errorSumValve := 0, errorDifValve := 0, errorPreValve := 0.5\<rparr>
     else v)"

text \<open>
  Lines 487 to 500: in mode FO the setpoint is assigned to \<^verbatim>\<open>ref\<close>, and a closed
  valve becomes active again when the setpoint lies between the pressures at its
  end nodes. The result is the value of \<^verbatim>\<open>ref\<close> and the valve.
\<close>

definition reopenFO :: "Network \<Rightarrow> real option \<Rightarrow> Valve \<Rightarrow> real option \<times> Valve" where
  "reopenFO nw ref0 v =
    (let pToNode = head (toNode v) - node_elev (toNode v);
         pFromNode = head (fromNode v) - node_elev (fromNode v)
     in if presManagType v = FO then
          (let ref = fixedOutletPressure v / ucf nw PRESSURE
           in (Some ref,
               if status v = LINK_CLOSED
               then (if pFromNode > ref \<and> pToNode < ref then v\<lparr>status := VALVE_ACTIVE\<rparr> else v)
               else v))
        else (ref0, v))"

text \<open>Lines 613 to 618: the opening is brought back into the interval from 0 to 1.\<close>

definition clampXm :: "Valve \<Rightarrow> Valve" where
  "clampXm v =
    (let v1 = (if Xm v < 0 then v\<lparr>Xm := 0\<rparr> else v)
     in if Xm v1 > 1 then v1\<lparr>Xm := 1\<rparr> else v1\<lparr>Xm := Xm v1\<rparr>)"

text \<open>
  Lines 476 to 618: the body of the loop for one DPRV. The valve is initialised,
  reopened in mode FO, controlled when its status is ACTIVE, and clamped.
\<close>

definition dprvControl ::
  "Network \<Rightarrow> int \<Rightarrow> real \<Rightarrow> real \<Rightarrow> real option \<Rightarrow> Valve \<Rightarrow> fault + (Valve \<times> real option)" where
  "dprvControl nw t alfaopen alfaclose ref0 v0 =
    (let deltat = HYD_STEP nw;
         v1 = initDprv t v0;
         (ref1, v2) = reopenFO nw ref0 v1
     in if status v2 = VALVE_ACTIVE
        then (case setpointError nw t ref1 v2 of
                Inl e \<Rightarrow> Inl e
              | Inr (v3, ref2) \<Rightarrow>
                  Inr (clampXm (physicalControl deltat alfaopen alfaclose v3), ref2))
        else Inr (clampXm v2, ref1))"

text \<open>
  The loop over the links. The stream \<^verbatim>\<open>outFile\<close> is the list of the lines written
  to it, a line being the time and the opening \<open>Xm\<close>.
\<close>

fun pmLoop ::
  "Network \<Rightarrow> int \<Rightarrow> real \<Rightarrow> real \<Rightarrow> Link list \<Rightarrow> real option \<Rightarrow> (int \<times> real) list
    \<Rightarrow> fault + (Link list \<times> (int \<times> real) list)" where
  "pmLoop nw t alfaopen alfaclose [] ref outFile = Inr ([], outFile)"
| "pmLoop nw t alfaopen alfaclose (VALVE v # ls) ref outFile =
    (if valveType v = DPRV then
       (case dprvControl nw t alfaopen alfaclose ref v of
          Inl e \<Rightarrow> Inl e
        | Inr (v', ref') \<Rightarrow>
            (case pmLoop nw t alfaopen alfaclose ls ref' (outFile @ [(t, Xm v')]) of
               Inl e \<Rightarrow> Inl e
             | Inr (ls', outFile') \<Rightarrow> Inr (VALVE v' # ls', outFile')))
     else
       (case pmLoop nw t alfaopen alfaclose ls ref outFile of
          Inl e \<Rightarrow> Inl e
        | Inr (ls', outFile') \<Rightarrow> Inr (VALVE v # ls', outFile')))"
| "pmLoop nw t alfaopen alfaclose (PIPE # ls) ref outFile =
    (case pmLoop nw t alfaopen alfaclose ls ref outFile of
       Inl e \<Rightarrow> Inl e
     | Inr (ls', outFile') \<Rightarrow> Inr (PIPE # ls', outFile'))"
| "pmLoop nw t alfaopen alfaclose (PUMP # ls) ref outFile =
    (case pmLoop nw t alfaopen alfaclose ls ref outFile of
       Inl e \<Rightarrow> Inl e
     | Inr (ls', outFile') \<Rightarrow> Inr (PUMP # ls', outFile'))"

text \<open>\<^verbatim>\<open>Project::pressureManagement\<close>, on the project's network.\<close>

definition pressureManagement ::
  "Network \<Rightarrow> int \<Rightarrow> (int \<times> real) list \<Rightarrow> real \<Rightarrow> real \<Rightarrow> real \<Rightarrow> real \<Rightarrow> real
    \<Rightarrow> fault + (Network \<times> (int \<times> real) list)" where
  "pressureManagement nw t outFile alfaopen alfaclose Kp Ki Kd =
    (case pmLoop nw t alfaopen alfaclose (links nw) None outFile of
       Inl e \<Rightarrow> Inl e
     | Inr (ls, outFile') \<Rightarrow> Inr (nw\<lparr>links := ls\<rparr>, outFile'))"

text \<open>\<^verbatim>\<open>Project::lasting\<close>, on the project's network.\<close>

definition lastingLink :: "Link \<Rightarrow> Link" where
  "lastingLink l =
    (case l of
       VALVE v \<Rightarrow>
         if valveType v = DPRV
         then VALVE (v\<lparr>Xm_Last := Xm v, errorPreValve := errorValve v\<rparr>)
         else l
     | _ \<Rightarrow> l)"

definition lasting :: "Network \<Rightarrow> Network" where
  "lasting nw = nw\<lparr>links := map lastingLink (links nw)\<rparr>"

section \<open>Running the solver\<close>

text \<open>
  An \<^verbatim>\<open>ENerror\<close> carries an integer code and a message. The class and its
  subclasses are declared in \<^verbatim>\<open>Core/error.h\<close>, which is not among the sources:
  the error that \<^verbatim>\<open>SystemError(SystemError::SOLVER_NOT_INITIALIZED)\<close> constructs is
  a parameter of \<open>runSolver\<close>.
\<close>

record ENerror =
  code :: int
  msg :: string

text \<open>
  The members of \<^verbatim>\<open>Project\<close> that \<^verbatim>\<open>runSolver\<close> uses. The hydraulic engine and
  the output file are defined outside the sources; their states are of types
  \<open>'h\<close> and \<open>'o\<close>.
\<close>

record ('h, 'o) Project =
  network :: Network
  hydEngine :: 'h
  outputFile :: 'o
  outputFileOpened :: bool
  solverInitialized :: bool

text \<open>
  The two collaborators \<^verbatim>\<open>runSolver\<close> calls: \<^verbatim>\<open>HydEngine::solve\<close>, which works on
  the engine, the network and the time \<^verbatim>\<open>*t\<close>, and
  \<^verbatim>\<open>OutputFile::writeNetworkResults\<close>. Each returns the state it leaves and the
  \<^verbatim>\<open>ENerror\<close> it throws, if any.
\<close>

record ('h, 'o) Engines =
  solve :: "'h \<Rightarrow> Network \<Rightarrow> int \<Rightarrow> ENerror option \<times> 'h \<times> Network \<times> int"
  writeNetworkResults :: "'o \<Rightarrow> Network \<Rightarrow> ENerror option \<times> 'o"

text \<open>\<^verbatim>\<open>Project::writeMsg\<close>.\<close>

definition writeMsg :: "('h, 'o) Project \<Rightarrow> string \<Rightarrow> ('h, 'o) Project" where
  "writeMsg p m = p\<lparr>network := (network p)\<lparr>msgLog := msgLog (network p) @ m\<rparr>\<rparr>"

text \<open>
  \<^verbatim>\<open>Project::runSolver\<close>: the returned code, the project and the value of \<^verbatim>\<open>*t\<close>.
  The test \<^verbatim>\<open>*t % REPORT_STEP == 0\<close> holds when the step divides \<^verbatim>\<open>*t\<close>; the
  remainder by a zero step is undefined.
\<close>

definition runSolver ::
  "('h, 'o) Engines \<Rightarrow> ENerror \<Rightarrow> ('h, 'o) Project \<Rightarrow> int
    \<Rightarrow> fault + (int \<times> ('h, 'o) Project \<times> int)" where
  "runSolver eng SOLVER_NOT_INITIALIZED p t =
    (if \<not> solverInitialized p
     then Inr (code SOLVER_NOT_INITIALIZED, writeMsg p (msg SOLVER_NOT_INITIALIZED), t)
     else
       (case solve eng (hydEngine p) (network p) t of
          (Some e, h, nw, t1) \<Rightarrow>
            Inr (code e, writeMsg (p\<lparr>hydEngine := h, network := nw\<rparr>) (msg e), t1)
        | (None, h, nw, t1) \<Rightarrow>
            (let p1 = p\<lparr>hydEngine := h, network := nw\<rparr>
             in if outputFileOpened p1 then
                  (if REPORT_STEP (network p1) = 0 then Inl DivisionByZero
                   else if t1 mod REPORT_STEP (network p1) = 0 then
                     (case writeNetworkResults eng (outputFile p1) (network p1) of
                        (Some e, out) \<Rightarrow> Inr (code e, writeMsg (p1\<lparr>outputFile := out\<rparr>) (msg e), t1)
                      | (None, out) \<Rightarrow> Inr (0, p1\<lparr>outputFile := out\<rparr>, t1))
                   else Inr (0, p1, t1))
                else Inr (0, p1, t1))))"

section \<open>The PRV rule in the words of the spec\<close>

text \<open>
  The transitions the spec lists for a PRV (section 4.4), for a head setting
  \<open>hset\<close>, a status \<open>s\<close>, a flow \<open>q\<close> and the heads \<open>H_from\<close> and \<open>H_to\<close>; a status
  with no transition listed stays as it is. This definition follows the spec, not
  the source: the theorems below compare it with \<open>updateStatus\<close>.
\<close>

definition specPrvRule :: "Constants \<Rightarrow> real \<Rightarrow> LinkStatus \<Rightarrow> real \<Rightarrow> real \<Rightarrow> real \<Rightarrow> LinkStatus" where
  "specPrvRule c hset s q H_from H_to =
    (case s of
       VALVE_ACTIVE \<Rightarrow>
         if q < - ZERO_FLOW c then LINK_CLOSED
         else if H_from < hset then LINK_OPEN
         else VALVE_ACTIVE
     | LINK_OPEN \<Rightarrow>
         if q < - ZERO_FLOW c then LINK_CLOSED
         else if H_to > hset then VALVE_ACTIVE
         else LINK_OPEN
     | LINK_CLOSED \<Rightarrow>
         if H_from > hset \<and> H_to < hset then VALVE_ACTIVE
         else if H_from < hset \<and> H_from > H_to then LINK_OPEN
         else LINK_CLOSED
     | TEMP_CLOSED \<Rightarrow> TEMP_CLOSED)"

section \<open>Concrete inputs\<close>

text \<open>
  A valve as the constructor \<^verbatim>\<open>Valve::Valve\<close> leaves it: type TCV, no loss factor,
  null \<^verbatim>\<open>remoteNode\<close> and \<^verbatim>\<open>settingPattern\<close>, no fixed status, elevation 0, initial
  status ACTIVE and initial setting 0. The members the constructor does not
  initialise are given the value zero (status ACTIVE, mode FO), and its end nodes
  have head and elevation 0.
\<close>

definition newNode :: Node where
  "newNode = \<lparr>head = 0, pastHead = 0, node_elev = 0\<rparr>"

definition newValve :: Valve where
  "newValve =
    \<lparr>status = VALVE_ACTIVE, flow = 0, setting = 0, diameter = 0, lossCoeff = 0,
     initStatus = VALVE_ACTIVE, initSetting = 0, pastFlow = 0, pastHloss = 0,
     pastSetting = 0, hLoss = 0, hGrad = 0, inertialTerm = 0,
     fromNode = newNode, toNode = newNode,
     valveType = TCV, lossFactor = 0, settingPattern = None, presManagType = FO,
     fixedOutletPressure = 0, dayPressure = 0, nightPressure = 0,
     a_FM = 0, b_FM = 0, c_FM = 0, rnmPressure = 0, remoteNode = None,
     dprvOutletPressure = 0, Xm = 0, delta_Xm = 0, Xm_Last = 0,
     errorValve = 0, errorSumValve = 0, errorDifValve = 0, errorPreValve = 0,
     hasFixedStatus = False, elev = 0\<rparr>"

text \<open>
  A DPRV in mode FO with a setpoint of 30, half open, active; and the function that
  reads a link as a valve, as \<^verbatim>\<open>static_cast<Valve*>(link)\<close> does for a link of
  type \<^verbatim>\<open>Link::VALVE\<close>.
\<close>

definition dprvValve :: Valve where
  "dprvValve =
    newValve\<lparr>valveType := DPRV, presManagType := FO, fixedOutletPressure := 30,
             Xm := 0.5, Xm_Last := 0.5\<rparr>"

definition asValve :: "Link \<Rightarrow> Valve" where
  "asValve l = (case l of VALVE v \<Rightarrow> v | _ \<Rightarrow> newValve)"

text \<open>
  A choice of the constants of \<^verbatim>\<open>Core/constants.h\<close> for evaluating the functions:
  tolerances of \<open>10\<^sup>-\<^sup>6\<close> for \<^verbatim>\<open>ZERO_FLOW\<close> and \<^verbatim>\<open>MIN_GRADIENT\<close>, and the
  resistance \<open>10\<^sup>8\<close> of a closed link that the spec gives as typical.
\<close>

definition someConstants :: Constants where
  "someConstants =
    \<lparr>ZERO_FLOW = 1 / 1000000, MIN_GRADIENT = 1 / 1000000,
     HIGH_RESISTANCE = 100000000, PI = 3.141592654\<rparr>"

text \<open>
  A network with the given links, unit conversion factors 1, a hydraulic step
  and a report step of one hour, and no curve.
\<close>

definition someNetwork :: "Link list \<Rightarrow> Network" where
  "someNetwork ls =
    \<lparr>links = ls, ucf = (\<lambda>u. 1), HYD_STEP = 3600, REPORT_STEP = 3600,
     VALVE_REP_TYPE = ''Toe'', curve = (\<lambda>i. None), msgLog = []\<rparr>"

text \<open>
  A DPRV in mode TM with a day pressure of 40 and a night pressure of 25; a
  hydraulic engine and an output file without state that never throw; an error
  with code 7 for the solver that is not initialised; a project on a network.
\<close>

definition tmValve :: Valve where
  "tmValve = newValve\<lparr>valveType := DPRV, presManagType := TM, dayPressure := 40, nightPressure := 25\<rparr>"

definition someEngines :: "(unit, unit) Engines" where
  "someEngines =
    \<lparr>solve = (\<lambda>h nw t. (None, h, nw, t)), writeNetworkResults = (\<lambda>out nw. (None, out))\<rparr>"

definition notInitialized :: ENerror where
  "notInitialized = \<lparr>code = 7, msg = ''solver not initialized''\<rparr>"

definition someProject :: "bool \<Rightarrow> (unit, unit) Project" where
  "someProject ini =
    \<lparr>network = someNetwork [], hydEngine = (), outputFile = (),
     outputFileOpened = True, solverInitialized = ini\<rparr>"

section \<open>Properties of the valve state machines\<close>

text \<open>
  Claim C10. For a valve in state \<open>LINK_CLOSED\<close> and a new setting different from
  the current one: a valve that is not a CCV, and a CCV given the new setting 0,
  gets the new setting and \<open>changeSetting\<close> returns false, with status, flow and
  message log unchanged, whatever \<open>makeChange\<close> is. A closed CCV given a non-zero
  new setting does not return early: with \<open>makeChange\<close> its status becomes
  \<open>LINK_OPEN\<close> and the result is true.
\<close>

theorem changeSetting_closed:
  assumes "status v = LINK_CLOSED" and "newSetting \<noteq> setting v"
  shows "changeSetting c v newSetting makeChange reason lg =
    (if valveType v = CCV \<and> newSetting \<noteq> 0
     then (if makeChange
           then (True, v\<lparr>status := LINK_OPEN, setting := newSetting\<rparr>,
                 lg @ [CHR 0x0A] @ ''    '' @ reason)
           else (True, v, lg))
     else (False, v\<lparr>setting := newSetting\<rparr>, lg))"
  using assms by (auto simp: changeSetting_def Let_def)

theorem changeSetting_closed_witness:
  "changeSetting someConstants (newValve\<lparr>status := LINK_CLOSED, valveType := PRV\<rparr>) 5 True ''r'' []
     = (False, newValve\<lparr>status := LINK_CLOSED, valveType := PRV, setting := 5\<rparr>, [])
   \<and> changeSetting someConstants (newValve\<lparr>status := LINK_CLOSED, valveType := CCV\<rparr>) 5 True ''r'' []
     = (True, newValve\<lparr>status := LINK_OPEN, valveType := CCV, setting := 5\<rparr>,
        [CHR 0x0A] @ ''    '' @ ''r'')"
  using changeSetting_closed [of "newValve\<lparr>status := LINK_CLOSED, valveType := PRV\<rparr>" 5
          someConstants True "''r''" "[]"]
    changeSetting_closed [of "newValve\<lparr>status := LINK_CLOSED, valveType := CCV\<rparr>" 5
          someConstants True "''r''" "[]"]
  by (simp add: newValve_def)

text \<open>
  The conversion of units stores the elevation of the downstream node in a PRV
  and in a DPRV.
\<close>

lemma convertUnits_elev:
  assumes "valveType v = PRV \<or> valveType v = DPRV"
  shows "elev (convertUnits nw v) = node_elev (toNode (convertUnits nw v))"
  using assms by (auto simp: convertUnits_def convertSetting_def Let_def)

text \<open>
  Claim C5. For a PRV without fixed status whose stored elevation is the one of
  its downstream node (as \<open>convertSetting\<close> sets it), the status after
  \<open>updateStatus\<close> is the one the PRV rule of the spec gives for
  \<open>hset = setting + elev_to\<close>: the listed transitions, and no change otherwise.
\<close>

theorem updateStatus_prv:
  assumes "valveType v = PRV" and "\<not> hasFixedStatus v" and "elev v = node_elev (toNode v)"
  shows "status (updateStatus c v q h1 h2) =
           specPrvRule c (setting v + node_elev (toNode v)) (status v) q h1 h2"
  using assms
  by (cases "status v") (simp_all add: updateStatus_def updatePrvStatus_def specPrvRule_def Let_def)

theorem updateStatus_prv_witness:
  "status (updateStatus someConstants (newValve\<lparr>valveType := PRV, setting := 40\<rparr>) 0 30 20) = LINK_OPEN"
  using updateStatus_prv [of "newValve\<lparr>valveType := PRV, setting := 40\<rparr>" someConstants 0 30 20]
  by (simp add: newValve_def newNode_def specPrvRule_def someConstants_def)

text \<open>The valve that \<open>updateDprvStatus\<close> returns differs from its argument in one member.\<close>

lemma updateDprvStatus_snd:
  "snd (updateDprvStatus c v q h1 h2) =
     v\<lparr>dprvOutletPressure := (if presManagType v = FO then fixedOutletPressure v / 0.3048
                               else head (toNode v) - node_elev (toNode v))\<rparr>"
  by (simp add: updateDprvStatus_def Let_def)

lemma closing_prv:
  "status (updateStatus someConstants (newValve\<lparr>valveType := PRV\<rparr>) (- 1) 10 5) = LINK_CLOSED"
  by (simp add: updateStatus_def updatePrvStatus_def newValve_def someConstants_def Let_def)

text \<open>
  Claim C8, as amended. When \<open>updateStatus\<close> moves a valve into \<open>LINK_CLOSED\<close>
  (only a PRV, a PSV or a DPRV changes status there), the flow of the valve is
  set to the constant \<open>ZERO_FLOW\<close>.
\<close>

theorem updateStatus_closing_flow:
  assumes "status v \<noteq> LINK_CLOSED" and "status (updateStatus c v q h1 h2) = LINK_CLOSED"
  shows "flow (updateStatus c v q h1 h2) = ZERO_FLOW c"
  using assms
  by (cases "valveType v")
     (auto simp: updateStatus_def Let_def case_prod_beta updateDprvStatus_snd split: if_splits)

theorem updateStatus_closing_flow_witness:
  "flow (updateStatus someConstants (newValve\<lparr>valveType := PRV\<rparr>) (- 1) 10 5) = 1 / 1000000"
  using updateStatus_closing_flow [of "newValve\<lparr>valveType := PRV\<rparr>" someConstants "- 1" 10 5]
    closing_prv
  by (simp add: newValve_def someConstants_def)

text \<open>
  Claim C8 as stated fails: with a tolerance \<open>ZERO_FLOW\<close> of \<open>10\<^sup>-\<^sup>6\<close>, an active PRV
  with a reverse flow of 1 is closed and its flow is not 0.
\<close>

theorem updateStatus_closing_flow_counterexample:
  "status (newValve\<lparr>valveType := PRV\<rparr>) \<noteq> LINK_CLOSED
   \<and> status (updateStatus someConstants (newValve\<lparr>valveType := PRV\<rparr>) (- 1) 10 5) = LINK_CLOSED
   \<and> flow (updateStatus someConstants (newValve\<lparr>valveType := PRV\<rparr>) (- 1) 10 5) \<noteq> 0"
  by (simp add: updateStatus_def updatePrvStatus_def newValve_def someConstants_def Let_def)

text \<open>
  Claim C4, as amended. The status \<open>updateDprvStatus\<close> computes is the one of the
  PRV rule with \<open>hset = fixedOutletPressure / 0.3048 + elev\<close> in mode FO and
  \<open>hset = (H_to - elev_to) + elev\<close> in the modes TM, FM and RNM, where \<open>elev\<close> is
  the elevation stored in the valve; in the latter modes \<open>hset\<close> is the current
  downstream head \<open>H_to\<close> when the stored elevation is the one of the downstream
  node.
\<close>

theorem updateDprvStatus_rule:
  "fst (updateDprvStatus c v q h1 h2) =
     specPrvRule c
       ((if presManagType v = FO then fixedOutletPressure v / 0.3048
         else head (toNode v) - node_elev (toNode v)) + elev v)
       (status v) q h1 h2
   \<and> (presManagType v \<noteq> FO \<and> elev v = node_elev (toNode v) \<longrightarrow>
        fst (updateDprvStatus c v q h1 h2) = specPrvRule c (head (toNode v)) (status v) q h1 h2)"
proof (cases "presManagType v = FO")
  case True
  then show ?thesis
    by (cases "status v") (simp_all add: updateDprvStatus_def specPrvRule_def Let_def)
next
  case False
  then show ?thesis
    by (cases "status v") (simp_all add: updateDprvStatus_def specPrvRule_def Let_def)
qed

theorem updateDprvStatus_rule_witness:
  "fst (updateDprvStatus someConstants
          (newValve\<lparr>valveType := DPRV, presManagType := TM,
                     toNode := \<lparr>head = 60, pastHead = 60, node_elev = 10\<rparr>, elev := 10\<rparr>) 0 50 40)
     = LINK_OPEN"
  using updateDprvStatus_rule [of someConstants
          "newValve\<lparr>valveType := DPRV, presManagType := TM,
                     toNode := \<lparr>head = 60, pastHead = 60, node_elev = 10\<rparr>, elev := 10\<rparr>" 0 50 40]
  by (simp add: newValve_def specPrvRule_def someConstants_def)

text \<open>
  Claim C4 as stated fails in mode FO: for a fixed outlet pressure of 30, an
  elevation of 0 and an upstream head of 50, the rule with
  \<open>hset = fixedOutletPressure + elev_to\<close> keeps an active valve active, and the
  code opens it, since \<open>50 < 30 / 0.3048\<close>.
\<close>

theorem updateDprvStatus_rule_counterexample:
  "fst (updateDprvStatus someConstants dprvValve 0 50 40)
     \<noteq> specPrvRule someConstants
          (fixedOutletPressure dprvValve + node_elev (toNode dprvValve))
          (status dprvValve) 0 50 40"
  by (simp add: updateDprvStatus_def specPrvRule_def dprvValve_def newValve_def newNode_def
      someConstants_def Let_def)

section \<open>Properties of the head loss\<close>

text \<open>The open-valve formula in closed form.\<close>

lemma findOpenHeadLoss_eq:
  "findOpenHeadLoss c v q =
     v\<lparr>hGrad := max (2 * lossFactor v * \<bar>q\<bar>) (MIN_GRADIENT c),
       hLoss := (if 2 * lossFactor v * \<bar>q\<bar> < MIN_GRADIENT c then MIN_GRADIENT c * q
                 else 2 * lossFactor v * \<bar>q\<bar> * q / 2)\<rparr>"
  by (simp add: findOpenHeadLoss_def Let_def max_def)

text \<open>
  The flow coefficient of an opening in the interval from 0 (excluded) to 1 is
  defined and positive, so that the loss factor \<open>1 / Cv\<^sup>2\<close> is a quotient by a
  non-zero number.
\<close>

lemma dprvCv_low:
  assumes "0 < Xm v" and "Xm v < 0.12"
  shows "dprvCv v = Some (0.07550186203 * Xm v / 0.12)"
  using assms by (simp add: dprvCv_def Let_def)

lemma dprvCv_high:
  assumes "\<not> Xm v < 0.12" and "Xm v \<le> 1"
  shows "dprvCv v = Some ((0.09 * Xm v ^ 3 - 1.21 * Xm v ^ 2 + 2.33 * Xm v - 0.21) * 1.442760731)"
  using assms by (simp add: dprvCv_def Let_def power2_eq_square power3_eq_cube)

lemma dprv_poly_pos:
  fixes x :: real
  assumes lo: "\<not> x < 0.12" and hi: "x \<le> 1"
  shows "0 < 0.09 * x ^ 3 - 1.21 * x ^ 2 + 2.33 * x - 0.21"
proof -
  have split: "0.09 * x ^ 3 - 1.21 * x ^ 2 + 2.33 * x - 0.21
                = 0.09 * x ^ 3 + 1.21 * ((x - 0.12) * (1 - x)) + (0.9748 * x - 0.0648)"
    by (simp add: power2_eq_square power3_eq_cube field_simps)
  have a: "0 \<le> 0.09 * x ^ 3" using lo by simp
  have "0 \<le> (x - 0.12) * (1 - x)" using lo hi by (intro mult_nonneg_nonneg) simp_all
  then have b: "0 \<le> 1.21 * ((x - 0.12) * (1 - x))" by simp
  have d: "0 < 0.9748 * x - 0.0648" using lo by simp
  show ?thesis using a b d unfolding split by linarith
qed

lemma dprvCv_pos:
  assumes "0 < Xm v" and "Xm v \<le> 1"
  shows "dprvCv v =
           Some (if Xm v < 0.12 then 0.07550186203 * Xm v / 0.12
                 else (0.09 * Xm v ^ 3 - 1.21 * Xm v ^ 2 + 2.33 * Xm v - 0.21) * 1.442760731)
       \<and> 0 < (if Xm v < 0.12 then 0.07550186203 * Xm v / 0.12
              else (0.09 * Xm v ^ 3 - 1.21 * Xm v ^ 2 + 2.33 * Xm v - 0.21) * 1.442760731)"
proof (cases "Xm v < 0.12")
  case True
  with assms dprvCv_low [of v] show ?thesis by simp
next
  case False
  with assms dprvCv_high [of v] dprv_poly_pos [of "Xm v"] show ?thesis by simp
qed

text \<open>
  Claim C2, as amended. For a DPRV without fixed status whose status is
  \<open>VALVE_ACTIVE\<close> and whose opening satisfies \<open>0 < Xm \<le> 1\<close>, \<open>findHeadLoss\<close>
  returns with the head loss of the open-valve formula for the loss factor
  \<open>1 / Cv\<^sup>2\<close>, where \<open>Cv = Cv_tr * Xm / 0.12\<close> for \<open>Xm < 0.12\<close> and
  \<open>Cv = (k1 * Xm\<^sup>3 + k2 * Xm\<^sup>2 + k3 * Xm + k4) * Cv_max\<close> otherwise, with the
  constants of the source; \<open>Cv\<close> is positive, \<open>hGrad\<close> is the larger of
  \<open>2 * (1 / Cv\<^sup>2) * \<bar>q\<bar>\<close> and \<open>MIN_GRADIENT\<close>, and the loss factor of the valve is
  restored.
\<close>

theorem findHeadLoss_dprv_active:
  assumes "valveType v = DPRV" and "\<not> hasFixedStatus v" and "status v = VALVE_ACTIVE"
    and "0 < Xm v" and "Xm v \<le> 1"
  shows "\<exists>v' Cv. findHeadLoss c nw v q = Inr v'
    \<and> Cv = (if Xm v < 0.12 then 0.07550186203 * Xm v / 0.12
            else (0.09 * Xm v ^ 3 - 1.21 * Xm v ^ 2 + 2.33 * Xm v - 0.21) * 1.442760731)
    \<and> 0 < Cv
    \<and> hGrad v' = max (2 * (1 / Cv\<^sup>2) * \<bar>q\<bar>) (MIN_GRADIENT c)
    \<and> hLoss v' = (if 2 * (1 / Cv\<^sup>2) * \<bar>q\<bar> < MIN_GRADIENT c then MIN_GRADIENT c * q
                  else 2 * (1 / Cv\<^sup>2) * \<bar>q\<bar> * q / 2)
    \<and> lossFactor v' = lossFactor v"
proof -
  define Cv where "Cv = (if Xm v < 0.12 then 0.07550186203 * Xm v / 0.12
            else (0.09 * Xm v ^ 3 - 1.21 * Xm v ^ 2 + 2.33 * Xm v - 0.21) * 1.442760731)"
  have cv: "dprvCv v = Some Cv" and pos: "0 < Cv"
    using dprvCv_pos [OF assms(4,5)] by (simp_all add: Cv_def)
  have "dprvCv (v\<lparr>hLoss := 0, hGrad := 0\<rparr>) = dprvCv v"
    by (simp add: dprvCv_def Let_def)
  with cv have cv0: "dprvCv (v\<lparr>hLoss := 0, hGrad := 0\<rparr>) = Some Cv" by simp
  have res: "findHeadLoss c nw v q =
      Inr ((findOpenHeadLoss c (v\<lparr>hLoss := 0, hGrad := 0, lossFactor := 1 / (Cv * Cv)\<rparr>) q)
             \<lparr>lossFactor := lossFactor v, inertialTerm := 0\<rparr>)"
    using assms(1-4) cv0 by (simp add: findHeadLoss_def findDprvHeadLoss_def Let_def)
  show ?thesis
    unfolding res using pos Cv_def
    by (intro exI [of _ "(findOpenHeadLoss c (v\<lparr>hLoss := 0, hGrad := 0, lossFactor := 1 / (Cv * Cv)\<rparr>) q)
             \<lparr>lossFactor := lossFactor v, inertialTerm := 0\<rparr>"] exI [of _ Cv])
       (simp add: findOpenHeadLoss_eq power2_eq_square)
qed

theorem findHeadLoss_dprv_active_witness:
  "\<exists>v' Cv. findHeadLoss someConstants (someNetwork []) dprvValve 1 = Inr v'
     \<and> 0 < Cv
     \<and> hGrad v' = max (2 * (1 / Cv\<^sup>2) * \<bar>1\<bar>) (MIN_GRADIENT someConstants)"
proof -
  have "valveType dprvValve = DPRV" and "\<not> hasFixedStatus dprvValve"
    and "status dprvValve = VALVE_ACTIVE" and "0 < Xm dprvValve" and "Xm dprvValve \<le> 1"
    by (simp_all add: dprvValve_def newValve_def)
  from findHeadLoss_dprv_active [OF this, of someConstants "someNetwork []" 1]
  show ?thesis by blast
qed

text \<open>The head loss of the sample valve when it is temporarily closed.\<close>

lemma findHeadLoss_temp_closed:
  "findHeadLoss someConstants (someNetwork []) (dprvValve\<lparr>status := TEMP_CLOSED\<rparr>) 1 =
     Inr (dprvValve\<lparr>status := TEMP_CLOSED, hGrad := 100000000, hLoss := 100000000,
                    inertialTerm := 1 / 1000000\<rparr>)"
  by (simp add: findHeadLoss_def findClosedHeadLoss_def Let_def
      dprvValve_def newValve_def someConstants_def)

text \<open>
  Claim C2 as stated fails for the status \<open>TEMP_CLOSED\<close>, which is neither
  \<open>LINK_CLOSED\<close> nor \<open>LINK_OPEN\<close>: the half-open sample valve, temporarily closed,
  gets the gradient \<open>HIGH_RESISTANCE\<close> of the closed formula, not the one of the
  open formula for \<open>1 / Cv\<^sup>2\<close>.
\<close>

theorem findHeadLoss_dprv_active_counterexample:
  "valveType (dprvValve\<lparr>status := TEMP_CLOSED\<rparr>) = DPRV
   \<and> \<not> hasFixedStatus (dprvValve\<lparr>status := TEMP_CLOSED\<rparr>)
   \<and> status (dprvValve\<lparr>status := TEMP_CLOSED\<rparr>) \<noteq> LINK_CLOSED
   \<and> status (dprvValve\<lparr>status := TEMP_CLOSED\<rparr>) \<noteq> LINK_OPEN
   \<and> Xm (dprvValve\<lparr>status := TEMP_CLOSED\<rparr>) = 0.5
   \<and> hGrad (projr (findHeadLoss someConstants (someNetwork []) (dprvValve\<lparr>status := TEMP_CLOSED\<rparr>) 1))
       \<noteq> max (2 * (1 / ((0.09 * 0.5 ^ 3 - 1.21 * 0.5 ^ 2 + 2.33 * 0.5 - 0.21) * 1.442760731)\<^sup>2) * \<bar>1\<bar>)
             (MIN_GRADIENT someConstants)"
  unfolding findHeadLoss_temp_closed
  by (simp add: dprvValve_def newValve_def someConstants_def power2_eq_square power3_eq_cube)

text \<open>The head loss of the half-open sample valve at the flow 1.\<close>

lemma findHeadLoss_dprvValve:
  "findHeadLoss someConstants (someNetwork []) dprvValve 1 =
     Inr (dprvValve\<lparr>hGrad := 2 * (1 / (0.66375 * 1.442760731)\<^sup>2),
                    hLoss := 1 / (0.66375 * 1.442760731)\<^sup>2, inertialTerm := 0\<rparr>)"
  by (simp add: findHeadLoss_def findDprvHeadLoss_def dprvCv_def findOpenHeadLoss_def Let_def
      dprvValve_def newValve_def someConstants_def power2_eq_square)

text \<open>
  Claim C7, as amended. When \<open>findHeadLoss\<close> returns, the inertial term is
  \<open>MIN_GRADIENT\<close> for a temporarily closed valve, for a valve with fixed status
  that is closed or open, for the types PBV, TCV, GPV, FCV, PRV and PSV, for a
  CCV with setting 0 and for a DPRV that is closed or has \<open>Xm = 0\<close>; it is
  \<open>10.765 / (32.174 * PI * diameter\<^sup>2)\<close> for a CCV with a non-zero setting; it
  is 0 for a DPRV in its open and active branches; and it is left as it was for
  a valve with fixed status that is neither closed nor open.
\<close>

theorem findHeadLoss_inertialTerm:
  assumes "findHeadLoss c nw v q = Inr v'"
  shows "inertialTerm v' =
    (if status v = TEMP_CLOSED then MIN_GRADIENT c
     else if hasFixedStatus v then
       (if status v = LINK_CLOSED \<or> status v = LINK_OPEN then MIN_GRADIENT c else inertialTerm v)
     else if valveType v = CCV then
       (if setting v = 0 then MIN_GRADIENT c
        else 10.765 / (32.174 * PI c * diameter v * diameter v))
     else if valveType v = DPRV then
       (if status v = LINK_CLOSED \<or> Xm v = 0 then MIN_GRADIENT c else 0)
     else MIN_GRADIENT c)"
  using assms
  by (cases "valveType v")
     (auto simp: findHeadLoss_def Let_def split: if_splits sum.splits)


theorem findHeadLoss_inertialTerm_witness:
  "inertialTerm (dprvValve\<lparr>hGrad := 2 * (1 / (0.66375 * 1.442760731)\<^sup>2),
                    hLoss := 1 / (0.66375 * 1.442760731)\<^sup>2, inertialTerm := 0\<rparr>) = 0"
  using findHeadLoss_inertialTerm [OF findHeadLoss_dprvValve]
  by (simp add: dprvValve_def newValve_def someConstants_def)

text \<open>
  Claim C7 as stated fails for a DPRV in its active branch: the inertial term of
  the half-open, active sample valve is 0, not a non-zero value.
\<close>

theorem findHeadLoss_inertialTerm_counterexample:
  "valveType dprvValve = DPRV \<and> \<not> hasFixedStatus dprvValve \<and> status dprvValve = VALVE_ACTIVE
   \<and> Xm dprvValve = 0.5
   \<and> \<not> isl (findHeadLoss someConstants (someNetwork []) dprvValve 1)
   \<and> inertialTerm (projr (findHeadLoss someConstants (someNetwork []) dprvValve 1)) = 0"
  unfolding findHeadLoss_dprvValve
  by (simp add: dprvValve_def newValve_def)

section \<open>Properties of the pressure-management controller\<close>

text \<open>The opening after the clamping.\<close>

lemma clampXm_range: "0 \<le> Xm (clampXm v) \<and> Xm (clampXm v) \<le> 1"
  by (simp add: clampXm_def Let_def)

lemma clampXm_Xm: "Xm (clampXm v) = min 1 (max 0 (Xm v))"
  by (simp add: clampXm_def Let_def min_def max_def)

text \<open>The opening of every DPRV that the loop has handled lies between 0 and 1.\<close>

lemma dprvControl_range:
  assumes "dprvControl nw t ao ac r v = Inr (v', r')"
  shows "0 \<le> Xm v' \<and> Xm v' \<le> 1"
  using assms clampXm_range
  by (auto simp: dprvControl_def Let_def split: sum.splits prod.splits if_splits)

lemma pmLoop_range:
  "pmLoop nw t ao ac ls r out = Inr (ls', out') \<Longrightarrow> VALVE v \<in> set ls' \<Longrightarrow> valveType v = DPRV
     \<Longrightarrow> 0 \<le> Xm v \<and> Xm v \<le> 1"
proof (induction nw t ao ac ls r out arbitrary: ls' out' rule: pmLoop.induct)
  case (1 nw t ao ac r out)
  then show ?case by simp
next
  case (2 nw t ao ac v0 ls r out)
  show ?case
  proof (cases "valveType v0 = DPRV")
    case True
    with "2.prems"(1) obtain v1 r1 ls1 where
      c: "dprvControl nw t ao ac r v0 = Inr (v1, r1)" and
      l: "pmLoop nw t ao ac ls r1 (out @ [(t, Xm v1)]) = Inr (ls1, out')" and
      e: "ls' = VALVE v1 # ls1"
      by (auto split: sum.splits prod.splits)
    from "2.prems"(2) e consider "v = v1" | "VALVE v \<in> set ls1" by auto
    then show ?thesis
    proof cases
      case 1
      with dprvControl_range [OF c] show ?thesis by simp
    next
      case 2
      with "2.IH"(1) [OF True c refl l] "2.prems"(3) show ?thesis by simp
    qed
  next
    case False
    with "2.prems"(1) obtain ls1 where
      l: "pmLoop nw t ao ac ls r out = Inr (ls1, out')" and
      e: "ls' = VALVE v0 # ls1"
      by (auto split: sum.splits prod.splits)
    from "2.prems"(2,3) e False have "VALVE v \<in> set ls1" by auto
    with "2.IH"(2) [OF False l] "2.prems"(3) show ?thesis by simp
  qed
next
  case (3 nw t ao ac ls r out)
  then show ?case by (auto split: sum.splits prod.splits)
next
  case (4 nw t ao ac ls r out)
  then show ?case by (auto split: sum.splits prod.splits)
qed










lemma initDprv_fields:
  "presManagType (initDprv t v) = presManagType v"
  "fixedOutletPressure (initDprv t v) = fixedOutletPressure v"
  "dayPressure (initDprv t v) = dayPressure v"
  "nightPressure (initDprv t v) = nightPressure v"
  "a_FM (initDprv t v) = a_FM v"
  "b_FM (initDprv t v) = b_FM v"
  "c_FM (initDprv t v) = c_FM v"
  "flow (initDprv t v) = flow v"
  "rnmPressure (initDprv t v) = rnmPressure v"
  "remoteNode (initDprv t v) = remoteNode v"
  "toNode (initDprv t v) = toNode v"
  "Xm (initDprv t v) = (if t = 0 then 0.2 else Xm v)"
  "Xm_Last (initDprv t v) = (if t = 0 then 0.2 else Xm_Last v)"
  by (simp_all add: initDprv_def)


text \<open>
  The controller on a network whose only link is the sample valve, at the time
  3600 with a hydraulic step of 3600 and \<open>alfaopen = alfaclose = 10\<^sup>-\<^sup>6\<close>: the
  error is 30, the increment \<open>4104 / 2773\<close>, and the opening is clamped to 1.
\<close>

lemma pressureManagement_dprvValve:
  "pressureManagement (someNetwork [VALVE dprvValve]) 3600 [] (1 / 1000000) (1 / 1000000) 0 0 0 =
     Inr (someNetwork [VALVE (dprvValve\<lparr>errorValve := 30, delta_Xm := 4104 / 2773, Xm := 1\<rparr>)],
          [(3600, 1)])"
  by (simp add: pressureManagement_def dprvControl_def initDprv_def reopenFO_def setpointError_def
      physicalControl_def clampXm_def Let_def dprvValve_def newValve_def newNode_def someNetwork_def)


text \<open>The operations on a valve other than the controller leave \<open>Xm\<close> as it is.\<close>

lemma findOpenHeadLoss_Xm: "Xm (findOpenHeadLoss c v q) = Xm v"
  by (simp add: findOpenHeadLoss_def Let_def)

lemma findClosedHeadLoss_Xm: "Xm (findClosedHeadLoss c v q) = Xm v"
  by (simp add: findClosedHeadLoss_def)

lemma findDprvHeadLoss_Xm: "findDprvHeadLoss c nw v q = Inr v' \<Longrightarrow> Xm v' = Xm v"
  by (auto simp: findDprvHeadLoss_def Let_def findOpenHeadLoss_Xm split: option.splits)

lemma findGpvHeadLoss_Xm: "findGpvHeadLoss nw v q = Inr v' \<Longrightarrow> Xm v' = Xm v"
  by (auto simp: findGpvHeadLoss_def Let_def split: option.splits prod.splits if_splits)

lemma findHeadLoss_Xm:
  assumes "findHeadLoss c nw v q = Inr v'"
  shows "Xm v' = Xm v"
proof (cases "valveType v")
  case DPRV
  with assms show ?thesis
    by (auto simp: findHeadLoss_def Let_def findOpenHeadLoss_Xm findClosedHeadLoss_Xm
        split: if_splits sum.splits dest!: findDprvHeadLoss_Xm)
next
  case GPV
  with assms show ?thesis
    by (auto simp: findHeadLoss_def Let_def findOpenHeadLoss_Xm findClosedHeadLoss_Xm
        split: if_splits sum.splits dest!: findGpvHeadLoss_Xm)
qed (use assms in \<open>auto simp: findHeadLoss_def Let_def findOpenHeadLoss_Xm findClosedHeadLoss_Xm
        findPbvHeadLoss_def findTcvHeadLoss_def findCcvHeadLoss_def findFcvHeadLoss_def
        split: if_splits\<close>)

lemma updateStatus_Xm: "Xm (updateStatus c v q h1 h2) = Xm v"
  by (cases "valveType v")
     (simp_all add: updateStatus_def Let_def case_prod_beta updateDprvStatus_snd)

lemma changeSetting_Xm: "Xm (fst (snd (changeSetting c v s mc reason lg))) = Xm v"
  by (simp add: changeSetting_def Let_def)

lemma changeStatus_Xm: "Xm (fst (snd (changeStatus c v st mc reason lg))) = Xm v"
  by (simp add: changeStatus_def Let_def)

lemma setInitFlow_Xm: "Xm (setInitFlow c v) = Xm v"
  by (simp add: setInitFlow_def Let_def)

lemma initialize_Xm: "Xm (initialize c v b) = Xm v"
  by (simp add: initialize_def Let_def setInitFlow_Xm)

lemma convertSetting_Xm: "Xm (snd (convertSetting nw v s)) = Xm v"
  by (simp add: convertSetting_def Let_def)

lemma convertUnits_Xm: "Xm (convertUnits nw v) = Xm v"
  by (simp add: convertUnits_def Let_def case_prod_beta convertSetting_Xm)

lemma lasting_Xm: "map (\<lambda>l. Xm (asValve l)) (links (lasting nw)) = map (\<lambda>l. Xm (asValve l)) (links nw)"
  by (auto simp: lasting_def lastingLink_def asValve_def split: Link.splits)

text \<open>
  The controller returns when every DPRV in mode RNM has a remote node and, if
  there is a DPRV in mode TM, the time lies in the horizon of the schedule.
\<close>

lemma tmRef_in_horizon:
  "0 \<le> t \<Longrightarrow> t \<le> 604800 \<Longrightarrow> \<exists>x. tmRef nw v t r = Some x"
  by (simp add: tmRef_def)

lemma setpointError_returns:
  assumes "presManagType v = RNM \<longrightarrow> remoteNode v \<noteq> None"
    and "presManagType v = TM \<longrightarrow> 0 \<le> t \<and> t \<le> 604800"
  shows "\<exists>v3 r2. setpointError nw t r v = Inr (v3, r2)"
proof (cases "presManagType v")
  case TM
  with assms tmRef_in_horizon [of t nw v r] show ?thesis
    by (auto simp: setpointError_def Let_def)
next
  case RNM
  with assms show ?thesis
    by (auto simp: setpointError_def Let_def)
qed (simp_all add: setpointError_def Let_def)

lemma reopenFO_fields:
  "presManagType (snd (reopenFO nw r v)) = presManagType v"
  "remoteNode (snd (reopenFO nw r v)) = remoteNode v"
  by (simp_all add: reopenFO_def Let_def)

lemma dprvControl_returns:
  assumes "presManagType v = RNM \<longrightarrow> remoteNode v \<noteq> None"
    and "presManagType v = TM \<longrightarrow> 0 \<le> t \<and> t \<le> 604800"
  shows "\<exists>v' r'. dprvControl nw t ao ac r v = Inr (v', r')"
proof -
  define w where "w = snd (reopenFO nw r (initDprv t v))"
  have "presManagType w = presManagType v" and "remoteNode w = remoteNode v"
    by (simp_all add: w_def reopenFO_fields initDprv_fields)
  with assms have "\<exists>v3 r2. setpointError nw t (fst (reopenFO nw r (initDprv t v))) w = Inr (v3, r2)"
    by (intro setpointError_returns) simp_all
  then show ?thesis
    by (auto simp: dprvControl_def Let_def case_prod_beta w_def)
qed

lemma pmLoop_returns:
  "(\<forall>v. VALVE v \<in> set ls \<and> valveType v = DPRV \<longrightarrow>
        (presManagType v = RNM \<longrightarrow> remoteNode v \<noteq> None)
      \<and> (presManagType v = TM \<longrightarrow> 0 \<le> t \<and> t \<le> 604800))
   \<Longrightarrow> \<exists>ls' out'. pmLoop nw t ao ac ls r out = Inr (ls', out')"
proof (induction nw t ao ac ls r out rule: pmLoop.induct)
  case (1 nw t ao ac r out)
  then show ?case by simp
next
  case (2 nw t ao ac v0 ls r out)
  show ?case
  proof (cases "valveType v0 = DPRV")
    case True
    with "2.prems" have "presManagType v0 = RNM \<longrightarrow> remoteNode v0 \<noteq> None"
      and "presManagType v0 = TM \<longrightarrow> 0 \<le> t \<and> t \<le> 604800" by auto
    from dprvControl_returns [OF this] obtain v1 r1 where
      c: "dprvControl nw t ao ac r v0 = Inr (v1, r1)" by blast
    from "2.prems" have "\<forall>v. VALVE v \<in> set ls \<and> valveType v = DPRV \<longrightarrow>
        (presManagType v = RNM \<longrightarrow> remoteNode v \<noteq> None)
      \<and> (presManagType v = TM \<longrightarrow> 0 \<le> t \<and> t \<le> 604800)" by auto
    from "2.IH"(1) [OF True c refl this] True c show ?thesis by auto
  next
    case False
    from "2.prems" have "\<forall>v. VALVE v \<in> set ls \<and> valveType v = DPRV \<longrightarrow>
        (presManagType v = RNM \<longrightarrow> remoteNode v \<noteq> None)
      \<and> (presManagType v = TM \<longrightarrow> 0 \<le> t \<and> t \<le> 604800)" by auto
    from "2.IH"(2) [OF False this] False show ?thesis by auto
  qed
next
  case (3 nw t ao ac ls r out)
  from "3.prems" have "\<forall>v. VALVE v \<in> set ls \<and> valveType v = DPRV \<longrightarrow>
        (presManagType v = RNM \<longrightarrow> remoteNode v \<noteq> None)
      \<and> (presManagType v = TM \<longrightarrow> 0 \<le> t \<and> t \<le> 604800)" by auto
  from "3.IH" [OF this] show ?case by auto
next
  case (4 nw t ao ac ls r out)
  from "4.prems" have "\<forall>v. VALVE v \<in> set ls \<and> valveType v = DPRV \<longrightarrow>
        (presManagType v = RNM \<longrightarrow> remoteNode v \<noteq> None)
      \<and> (presManagType v = TM \<longrightarrow> 0 \<le> t \<and> t \<le> 604800)" by auto
  from "4.IH" [OF this] show ?case by auto
qed

lemma pressureManagement_returns:
  assumes "\<forall>v. VALVE v \<in> set (links nw) \<and> valveType v = DPRV \<longrightarrow>
        (presManagType v = RNM \<longrightarrow> remoteNode v \<noteq> None)
      \<and> (presManagType v = TM \<longrightarrow> 0 \<le> t \<and> t \<le> 604800)"
  shows "\<exists>nw' out'. pressureManagement nw t out ao ac Kp Ki Kd = Inr (nw', out')"
proof -
  from pmLoop_returns [OF assms, of nw ao ac None out] obtain ls' out' where
    "pmLoop nw t ao ac (links nw) None out = Inr (ls', out')" by blast
  then show ?thesis by (simp add: pressureManagement_def)
qed

text \<open>
  Claim C3. After every call of \<open>pressureManagement\<close> that returns, for any time
  and any status of the valves, the opening \<open>Xm\<close> of every DPRV of the network
  lies between 0 and 1; the call returns when every DPRV in mode RNM has a remote
  node and every DPRV in mode TM is asked for a time of the schedule. No other
  operation changes \<open>Xm\<close>: \<open>lasting\<close>, \<open>findHeadLoss\<close>, \<open>updateStatus\<close>,
  \<open>changeSetting\<close>, \<open>changeStatus\<close>, the initialisation and the conversion of
  units leave it as it is.
\<close>

theorem Xm_unit_interval:
  "(pressureManagement nw t out ao ac Kp Ki Kd = Inr (nw', out') \<longrightarrow>
      (\<forall>v. VALVE v \<in> set (links nw') \<and> valveType v = DPRV \<longrightarrow> 0 \<le> Xm v \<and> Xm v \<le> 1))
   \<and> ((\<forall>v. VALVE v \<in> set (links nw) \<and> valveType v = DPRV \<longrightarrow>
          (presManagType v = RNM \<longrightarrow> remoteNode v \<noteq> None)
        \<and> (presManagType v = TM \<longrightarrow> 0 \<le> t \<and> t \<le> 604800)) \<longrightarrow>
       (\<exists>nw'' out''. pressureManagement nw t out ao ac Kp Ki Kd = Inr (nw'', out'')))
   \<and> map (\<lambda>l. Xm (asValve l)) (links (lasting nw)) = map (\<lambda>l. Xm (asValve l)) (links nw)
   \<and> (findHeadLoss c nw v q = Inr v' \<longrightarrow> Xm v' = Xm v)
   \<and> Xm (updateStatus c v q h1 h2) = Xm v
   \<and> Xm (fst (snd (changeSetting c v s mc reason lg))) = Xm v
   \<and> Xm (fst (snd (changeStatus c v st mc reason lg))) = Xm v
   \<and> Xm (initialize c v b) = Xm v
   \<and> Xm (setInitFlow c v) = Xm v
   \<and> Xm (setInitStatus v st) = Xm v
   \<and> Xm (setInitSetting v s) = Xm v
   \<and> Xm (setLossFactor v) = Xm v
   \<and> Xm (convertUnits nw v) = Xm v
   \<and> Xm (snd (convertSetting nw v s)) = Xm v
   \<and> Xm (applyControlPattern v) = Xm v"
proof -
  have pm: "pressureManagement nw t out ao ac Kp Ki Kd = Inr (nw', out') \<longrightarrow>
      (\<forall>v. VALVE v \<in> set (links nw') \<and> valveType v = DPRV \<longrightarrow> 0 \<le> Xm v \<and> Xm v \<le> 1)"
  proof (intro impI allI)
    fix w
    assume run: "pressureManagement nw t out ao ac Kp Ki Kd = Inr (nw', out')"
      and w: "VALVE w \<in> set (links nw') \<and> valveType w = DPRV"
    from run obtain ls where loop: "pmLoop nw t ao ac (links nw) None out = Inr (ls, out')"
      and nw': "links nw' = ls"
      by (auto simp: pressureManagement_def split: sum.splits prod.splits)
    from pmLoop_range [OF loop, of w] w nw' show "0 \<le> Xm w \<and> Xm w \<le> 1" by simp
  qed
  have rest: "Xm (setInitStatus v st) = Xm v" "Xm (setInitSetting v s) = Xm v"
    "Xm (setLossFactor v) = Xm v" "Xm (applyControlPattern v) = Xm v"
    by (simp_all add: setInitStatus_def setInitSetting_def setLossFactor_def
        applyControlPattern_def Let_def)
  have ret: "(\<forall>v. VALVE v \<in> set (links nw) \<and> valveType v = DPRV \<longrightarrow>
          (presManagType v = RNM \<longrightarrow> remoteNode v \<noteq> None)
        \<and> (presManagType v = TM \<longrightarrow> 0 \<le> t \<and> t \<le> 604800)) \<longrightarrow>
       (\<exists>nw'' out''. pressureManagement nw t out ao ac Kp Ki Kd = Inr (nw'', out''))"
    using pressureManagement_returns [of nw t out ao ac Kp Ki Kd] by blast
  from pm ret rest show ?thesis
    using lasting_Xm [of nw] findHeadLoss_Xm [of c nw v q v'] updateStatus_Xm [of c v q h1 h2]
      changeSetting_Xm [of c v s mc reason lg] changeStatus_Xm [of c v st mc reason lg]
      initialize_Xm [of c v b] setInitFlow_Xm [of c v] convertUnits_Xm [of nw v]
      convertSetting_Xm [of nw v s]
    by blast
qed

theorem Xm_unit_interval_witness:
  "0 \<le> Xm (dprvValve\<lparr>errorValve := 30, delta_Xm := 4104 / 2773, Xm := 1\<rparr>)
   \<and> Xm (dprvValve\<lparr>errorValve := 30, delta_Xm := 4104 / 2773, Xm := 1\<rparr>) \<le> 1"
  using Xm_unit_interval [of "someNetwork [VALVE dprvValve]" 3600 "[]" "1 / 1000000" "1 / 1000000" 0 0 0
      "someNetwork [VALVE (dprvValve\<lparr>errorValve := 30, delta_Xm := 4104 / 2773, Xm := 1\<rparr>)]"
      "[(3600, 1)]"]
    pressureManagement_dprvValve
  by (simp add: someNetwork_def dprvValve_def)

text \<open>Consecutive intervals of the schedule share their boundary.\<close>

lemma tmSchedule_contiguous: "map (\<lambda>(a, b, d). b) (butlast tmSchedule) = map (\<lambda>(a, b, d). a) (tl tmSchedule)"
  by (simp add: tmSchedule_def)

text \<open>
  Claim C6, as amended. In mode TM the intervals of the schedule are contiguous
  and cover the horizon from 0 to 604800: every time of the horizon gets the
  setpoint of an interval that contains it. The intervals are closed on the
  right: at a time \<open>t\<close> with \<open>a < t \<le> b\<close> for an interval from \<open>a\<close> to \<open>b\<close> (and at
  \<open>t = 0\<close> for the first one) the setpoint is the one of that interval, so at a
  boundary shared by two intervals it is the one of the interval that ends
  there.
\<close>

theorem tmRef_schedule:
  "(\<forall>(a, b, d) \<in> set tmSchedule.
       (a < t \<or> t = 0) \<and> a \<le> t \<and> t \<le> b \<longrightarrow> tmRef nw v t r = Some (tmPressure nw v d))
   \<and> (0 \<le> t \<and> t \<le> 604800 \<longrightarrow>
        (\<exists>(a, b, d) \<in> set tmSchedule. a \<le> t \<and> t \<le> b \<and> tmRef nw v t r = Some (tmPressure nw v d)))"
proof
  show "\<forall>(a, b, d) \<in> set tmSchedule.
       (a < t \<or> t = 0) \<and> a \<le> t \<and> t \<le> b \<longrightarrow> tmRef nw v t r = Some (tmPressure nw v d)"
    by (simp add: tmSchedule_def tmRef_def tmPressure_def)
  show "0 \<le> t \<and> t \<le> 604800 \<longrightarrow>
        (\<exists>(a, b, d) \<in> set tmSchedule. a \<le> t \<and> t \<le> b \<and> tmRef nw v t r = Some (tmPressure nw v d))"
    by (simp add: tmSchedule_def tmRef_def tmPressure_def)
qed

theorem tmRef_schedule_witness:
  "tmRef (someNetwork []) tmValve 3600 None = Some 40
   \<and> tmRef (someNetwork []) tmValve 3601 None = Some 25
   \<and> (\<exists>(a, b, d) \<in> set tmSchedule. a \<le> 18000 \<and> 18000 \<le> b
        \<and> tmRef (someNetwork []) tmValve 18000 None = Some (tmPressure (someNetwork []) tmValve d))"
  using tmRef_schedule [of 3600 "someNetwork []" tmValve None]
    tmRef_schedule [of 3601 "someNetwork []" tmValve None]
    tmRef_schedule [of 18000 "someNetwork []" tmValve None]
  by (simp add: tmSchedule_def tmPressure_def tmValve_def newValve_def someNetwork_def)

text \<open>
  Claim C6 as stated fails at the boundary 3600, where the interval of the day
  pressure ends and the interval of the night pressure begins: the setpoint is
  the day pressure 40, not the night pressure 25.
\<close>

theorem tmRef_schedule_counterexample:
  "(0, 3600, True) \<in> set tmSchedule \<and> (3600, 18000, False) \<in> set tmSchedule
   \<and> tmRef (someNetwork []) tmValve 3600 None \<noteq> Some (tmPressure (someNetwork []) tmValve False)"
  by (simp add: tmSchedule_def tmRef_def tmPressure_def tmValve_def newValve_def someNetwork_def)


section \<open>Properties of the solver interface\<close>

text \<open>
  Claim C9. Called on a project whose solver is not initialised, \<open>runSolver\<close>
  does not propagate the error: it returns the code of the error, positive as
  the codes of errors are, and leaves the project as it was but for the message
  of the error appended to the message log. When the solver is initialised and
  neither the hydraulic engine nor the output file throws, \<open>runSolver\<close> returns 0.
\<close>

theorem runSolver_result:
  assumes "0 < code e"
  shows "(\<not> solverInitialized p \<longrightarrow>
            runSolver eng e p t = Inr (code e, writeMsg p (msg e), t)
          \<and> 0 < code e
          \<and> msgLog (network (writeMsg p (msg e))) = msgLog (network p) @ msg e)
       \<and> (solverInitialized p \<and> solve eng (hydEngine p) (network p) t = (None, h, nw, t1)
          \<and> (outputFileOpened p \<longrightarrow>
               REPORT_STEP nw \<noteq> 0
             \<and> (t1 mod REPORT_STEP nw = 0 \<longrightarrow> fst (writeNetworkResults eng (outputFile p) nw) = None))
          \<longrightarrow> (\<exists>p'. runSolver eng e p t = Inr (0, p', t1)))"
  using assms
  by (auto simp: runSolver_def writeMsg_def Let_def split: prod.splits option.splits)

theorem runSolver_result_witness:
  "runSolver someEngines notInitialized (someProject False) 3600
     = Inr (7, writeMsg (someProject False) ''solver not initialized'', 3600)
   \<and> (\<exists>p'. runSolver someEngines notInitialized (someProject True) 3600 = Inr (0, p', 3600))"
  using runSolver_result [of notInitialized "someProject False" someEngines 3600]
    runSolver_result [of notInitialized "someProject True" someEngines 3600 "()" "someNetwork []" 3600]
  by (simp add: notInitialized_def someProject_def someEngines_def someNetwork_def)

end
